theory Spec2Isabelle
  imports Complex_Main
begin

section \<open>Python values used by both programs\<close>

text \<open>
  A Python \<open>str\<close> is a \<open>string\<close>: one \<open>char\<close> per code point, for the code points
  below 256 (every marker the scripts look for is ASCII). A Python \<open>float\<close> is a
  \<open>rat\<close>: the arithmetic of the scripts (one division, one or two multiplications by
  constants) is carried out exactly, so the rounding of IEEE doubles is not part of this
  development. An exception caught by \<open>except Exception as e\<close> is the value
  \<open>Raised msg\<close>, with \<open>msg\<close> the text of \<open>str(e)\<close>.
\<close>

datatype 'a outcome = Returned 'a | Raised string

definition squote :: char where
  "squote = CHR 0x27"

definition dquote :: char where
  "dquote = CHR 0x22"

definition backslash :: char where
  "backslash = CHR 0x5C"

definition newline :: char where
  "newline = CHR 0x0A"

text \<open>
  \<open>str.isspace\<close> on the code points below 256: tab to carriage return, the four
  separators, the blank, next line and the no-break space.
\<close>

definition whitespace :: "char list" where
  "whitespace =
     [CHR 0x09, CHR 0x0A, CHR 0x0B, CHR 0x0C, CHR 0x0D, CHR 0x1C, CHR 0x1D, CHR 0x1E, CHR 0x1F,
      CHR 0x20, CHR 0x85, CHR 0xA0]"

definition isspace :: "char \<Rightarrow> bool" where
  "isspace c = (c \<in> set whitespace)"

text \<open>\<open>s.strip()\<close>\<close>

definition strip :: "string \<Rightarrow> string" where
  "strip s = rev (dropWhile isspace (rev (dropWhile isspace s)))"

text \<open>\<open>s.startswith(p)\<close> and \<open>s.endswith(p)\<close>\<close>

definition startswith :: "string \<Rightarrow> string \<Rightarrow> bool" where
  "startswith s p = (take (length p) s = p)"

definition endswith :: "string \<Rightarrow> string \<Rightarrow> bool" where
  "endswith s p = (length p \<le> length s \<and> drop (length s - length p) s = p)"

text \<open>\<open>p in s\<close> for strings: \<open>p\<close> occurs in \<open>s\<close> as a contiguous run.\<close>

fun str_in :: "string \<Rightarrow> string \<Rightarrow> bool" where
  "str_in p [] = (p = [])"
| "str_in p (c # cs) = (startswith (c # cs) p \<or> str_in p cs)"

text \<open>\<open>s.count(c)\<close> for a one-character \<open>c\<close>\<close>

definition count_char :: "string \<Rightarrow> char \<Rightarrow> nat" where
  "count_char s c = length (filter (\<lambda>d. d = c) s)"

text \<open>\<open>s.split('\n')\<close>: the pieces between line feeds, always at least one piece.\<close>

fun split_nl :: "string \<Rightarrow> string list" where
  "split_nl [] = [[]]"
| "split_nl (c # cs) =
     (if c = newline then [] # split_nl cs
      else (case split_nl cs of
              [] \<Rightarrow> [[c]]
            | l # ls \<Rightarrow> (c # l) # ls))"

section \<open>The submission registry (\<open>server.py\<close>)\<close>

text \<open>
  A stored submission is the dictionary built by \<open>submit_bot\<close>; the module-global
  \<open>submissions_db\<close> is a map from the submission id to it, threaded through every tool.
\<close>

record submission =
  submission_id :: string
  bot_name :: string
  team_name :: string
  bot_version :: string
  repository_url :: string
  description :: string
  language :: string
  framework :: string
  status :: string
  submitted_at :: string
  updated_at :: string

type_synonym submissions_db = "string \<rightharpoonup> submission"

text \<open>The dictionaries the tools return: \<open>success\<close> False with \<open>error\<close>, or one of the successes.\<close>

datatype response =
    Failure string
  | Got submission
  | Updated string submission
  | Deleted string submission

definition success :: "response \<Rightarrow> bool" where
  "success r = (case r of Failure e \<Rightarrow> False | _ \<Rightarrow> True)"

definition not_found :: "string \<Rightarrow> string" where
  "not_found sid = ''Submission '' @ [squote] @ sid @ [squote] @ '' not found''"

definition get_submission :: "submissions_db \<Rightarrow> string \<Rightarrow> response \<times> submissions_db" where
  "get_submission db sid =
     (case db sid of
        None \<Rightarrow> (Failure (not_found sid), db)
      | Some s \<Rightarrow> (Got s, db))"

text \<open>
  \<open>update_submission\<close> mutates the stored dictionary in place, so the store changes with it.
  \<open>now\<close> is \<open>datetime.now().isoformat()\<close>.
\<close>

definition update_submission ::
  "submissions_db \<Rightarrow> string \<Rightarrow> string \<Rightarrow> string option \<Rightarrow> string option \<Rightarrow> string option \<Rightarrow>
   string option \<Rightarrow> response \<times> submissions_db" where
  "update_submission db now sid bot_version_arg description_arg repository_url_arg status_arg =
     (case db sid of
        None \<Rightarrow> (Failure (not_found sid), db)
      | Some s \<Rightarrow>
          (let s1 = (case bot_version_arg of None \<Rightarrow> s | Some v \<Rightarrow> s\<lparr>bot_version := v\<rparr>);
               s2 = (case description_arg of None \<Rightarrow> s1 | Some v \<Rightarrow> s1\<lparr>description := v\<rparr>);
               s3 = (case repository_url_arg of None \<Rightarrow> s2 | Some v \<Rightarrow> s2\<lparr>repository_url := v\<rparr>);
               s4 = (case status_arg of None \<Rightarrow> s3 | Some v \<Rightarrow> s3\<lparr>status := v\<rparr>);
               s5 = s4\<lparr>updated_at := now\<rparr>
           in (Updated (''Submission '' @ [squote] @ sid @ [squote] @ '' updated successfully'') s5,
               db(sid \<mapsto> s5))))"

definition delete_submission :: "submissions_db \<Rightarrow> string \<Rightarrow> response \<times> submissions_db" where
  "delete_submission db sid =
     (case db sid of
        None \<Rightarrow> (Failure (not_found sid), db)
      | Some s \<Rightarrow>
          (Deleted (''Submission '' @ [squote] @ sid @ [squote] @ '' deleted successfully'') s,
           db(sid := None)))"

section \<open>The verification script (\<open>verificationScript.py\<close>)\<close>

subsection \<open>What the script prints\<close>

text \<open>
  Standard output is the list of the \<open>print\<close> calls, in order. An f-string is kept as
  its pieces: literal text and the text of an exception or a path (\<open>S\<close>), an integer
  (\<open>I\<close>), a float printed by \<open>str\<close> (\<open>Fl\<close>), with \<open>:.1f\<close> (\<open>F1\<close>) and with \<open>:.2f\<close>
  (\<open>F2\<close>). Colour codes, the check-mark glyphs that \<open>print_success\<close> and its siblings put
  in front, blank lines and the frame of the banner are presentation and are left out.
\<close>

datatype piece = S string | I int | Fl rat | F1 rat | F2 rat

datatype out =
    Print_banner
  | Print_header string
  | Print_success "piece list"
  | Print_error "piece list"
  | Print_warning "piece list"
  | Print_info "piece list"
  | Print "piece list"
  | Print_summary string bool
  | Print_rule

subsection \<open>What the script reads\<close>

text \<open>
  A file found by \<open>rglob\<close>: the text of its path, the path relative to \<open>USERBOT_DIR\<close>
  and relative to its third parent (both always defined for a file found below those
  directories), and what \<open>open\<close> followed by \<open>readlines\<close> gives: the lines, or the
  exception raised before any line is seen.
\<close>

record src_file =
  str_path :: string
  rel_userbot :: string
  rel_grandparent :: string
  readlines :: "string list outcome"

text \<open>\<open>subprocess.CompletedProcess\<close>\<close>

record completed =
  returncode :: int
  stdout :: string
  stderr :: string

text \<open>
  One field per place where the script consults the file system or runs a tool, named
  after the check that does it; every \<open>rglob\<close> is a list of its own, since a build
  between two checks may add files. A \<open>Raised\<close> subprocess is any \<open>Exception\<close> of
  \<open>subprocess.run\<close>: the tool is missing, or (with \<open>timeout=30\<close>) it ran out of time.
  \<open>perf_setup\<close> is the \<open>mkdir\<close> and \<open>write_text\<close> of the temporary test file.
  \<open>rglob\<close>, \<open>print\<close> and the clean-up in \<open>finally\<close> (\<open>rmtree\<close> with
  \<open>ignore_errors\<close>) do not raise.
\<close>

record env =
  userbot_dir :: string
  userbot_dir_exists :: bool
  compilation_build :: "completed outcome"
  ds_cs_files :: "src_file list"
  se_cs_files :: "src_file list"
  se_test_files :: "src_file list"
  cov_test_run :: "completed outcome"
  cov_cobertura_files :: "string list"
  cov_xml_files :: "string list"
  cov_source_files :: "string list"
  cov_test_files :: "string list"
  cov_list_tests :: "completed outcome"
  perf_setup :: "unit outcome"
  perf_build :: "completed outcome"
  perf_test_run :: "completed outcome"

definition REQUIRED_COVERAGE_PERCENT :: rat where
  "REQUIRED_COVERAGE_PERCENT = 50"

definition MAX_EXECUTION_TIME_MS :: int where
  "MAX_EXECUTION_TIME_MS = 300"

subsection \<open>\<open>check_compilation\<close>\<close>

definition check_compilation :: "env \<Rightarrow> bool \<times> out list" where
  "check_compilation e =
     (let log0 = [Print_header ''VERIFICATION 1: COMPILATION''] in
      case compilation_build e of
        Returned result \<Rightarrow>
          if returncode result = 0
          then (True, log0 @ [Print_success [S ''UserBot.StrategicMind compiles successfully'']])
          else (False, log0 @ [Print_error [S ''Compilation failed''],
                               Print [S ''Build Output:''],
                               Print [S (stdout result)],
                               Print [S (stderr result)]])
      | Raised msg \<Rightarrow>
          (False, log0 @ [Print_error [S ''Failed to run compilation: '', S msg]]))"

subsection \<open>\<open>check_double_semicolons\<close>\<close>

text \<open>An entry of \<open>issues_found\<close>: the keys \<open>file\<close>, \<open>line\<close> and \<open>content\<close>.\<close>

record issue =
  issue_file :: string
  issue_line :: nat
  issue_content :: string

text \<open>
  The body of the loop over \<open>enumerate(lines, 1)\<close>; \<open>found\<close> is the list
  \<open>issues_found\<close> of this check.
\<close>

definition ds_line :: "src_file \<Rightarrow> nat \<times> string \<Rightarrow> issue list \<Rightarrow> issue list" where
  "ds_line cs_file = (\<lambda>(line_num, l) found.
     if str_in '';;'' l then
       (let stripped = strip l in
        if \<not> startswith stripped ''//'' \<and> \<not> startswith stripped ''*''
        then found @ [\<lparr>issue_file = rel_userbot cs_file, issue_line = line_num,
                       issue_content = strip l\<rparr>]
        else found)
     else found)"

text \<open>The body of the loop over \<open>cs_files\<close>, with its \<open>try\<close>.\<close>

definition ds_file :: "src_file \<Rightarrow> issue list \<times> out list \<Rightarrow> issue list \<times> out list" where
  "ds_file cs_file = (\<lambda>(found, log).
     case readlines cs_file of
       Returned lines \<Rightarrow> (fold (ds_line cs_file) (enumerate 1 lines) found, log)
     | Raised msg \<Rightarrow>
         (found, log @ [Print_warning [S ''Could not read '', S (str_path cs_file), S '': '', S msg]]))"

definition ds_scan :: "src_file list \<Rightarrow> issue list \<times> out list" where
  "ds_scan cs_files =
     fold ds_file cs_files ([], [Print_header ''VERIFICATION 2: DOUBLE SEMICOLON RULE''])"

definition show_ds_issue :: "issue \<Rightarrow> out list" where
  "show_ds_issue i =
     [Print [S ''  '', S (issue_file i), S '':'', I (int (issue_line i))],
      Print [S ''    '', S (take 100 (issue_content i))]]"

definition check_double_semicolons :: "env \<Rightarrow> bool \<times> out list" where
  "check_double_semicolons e =
     (let cs_files = ds_cs_files e;
          (found, log) = ds_scan cs_files
      in if found \<noteq> [] then
           (False,
            log @ [Print_error [S ''Found '', I (int (length found)),
                                S '' double semicolon violations:'']]
                @ concat (map show_ds_issue (take 10 found))
                @ (if length found > 10
                   then [Print [S ''  ... and '', I (int (length found) - 10), S '' more'']]
                   else []))
         else
           (True,
            log @ [Print_success [S ''No double semicolons found in '',
                                  I (int (length cs_files)), S '' C# files'']]))"

subsection \<open>\<open>check_statement_endings\<close>\<close>

text \<open>The variables the loops of \<open>check_statement_endings\<close> assign.\<close>

record scan =
  in_multiline_comment :: bool
  issues_found :: "issue list"
  total_statements :: nat
  correct_statements :: nat

text \<open>The substrings of \<open>str(f)\<close> that mark a generated file.\<close>

definition generated_markers :: "string list" where
  "generated_markers =
     [''obj/'', ''bin/'', ''/obj'' @ [backslash], [backslash] @ ''bin'' @ [backslash]]"

definition not_generated :: "src_file \<Rightarrow> bool" where
  "not_generated f = (\<not> list_ex (\<lambda>x. str_in x (str_path f)) generated_markers)"

text \<open>The body of the loop over \<open>enumerate(lines, 1)\<close>; every \<open>continue\<close> returns the state.\<close>

definition se_line :: "src_file \<Rightarrow> nat \<times> string \<Rightarrow> scan \<Rightarrow> scan" where
  "se_line cs_file = (\<lambda>(line_num, l) st.
     let stripped = strip l in
     if stripped = [] then st
     else
       let st1 = (if str_in ''/*'' stripped then st\<lparr>in_multiline_comment := True\<rparr> else st) in
       if str_in ''*/'' stripped then st1\<lparr>in_multiline_comment := False\<rparr>
       else if in_multiline_comment st1 then st1
       else if startswith stripped ''///'' \<or> startswith stripped ''//'' then st1
       else if startswith stripped ''['' \<and> endswith stripped '']'' then st1
       else
         let has_semicolon = str_in '';'' stripped;
             is_brace_only = (stripped \<in> set [''{'', ''}'', ''{;'', ''};'']);
             is_property_or_method =
               (str_in ''=>'' stripped \<or> str_in ''get;'' stripped \<or> str_in ''set;'' stripped);
             is_for_loop = startswith stripped ''for ('';
             is_linq_continuation = startswith stripped ''.'';
             is_lambda = startswith stripped ''async () =>''
         in
         if (has_semicolon \<or> is_property_or_method) \<and> \<not> is_brace_only \<and> \<not> is_for_loop
            \<and> \<not> is_linq_continuation \<and> \<not> is_lambda
         then
           let st2 = st1\<lparr>total_statements := total_statements st1 + 1\<rparr> in
           if endswith stripped ''//'' then
             st2\<lparr>correct_statements := correct_statements st2 + 1\<rparr>
           else if \<not> (str_in [dquote] stripped \<and> count_char stripped dquote \<ge> 2) then
             st2\<lparr>issues_found := issues_found st2 @
                    [\<lparr>issue_file = rel_grandparent cs_file, issue_line = line_num,
                      issue_content = take 80 stripped\<rparr>]\<rparr>
           else st2
         else st1)"

text \<open>The body of the loop over \<open>all_files\<close>, with its \<open>try\<close>.\<close>

definition se_file :: "src_file \<Rightarrow> scan \<times> out list \<Rightarrow> scan \<times> out list" where
  "se_file cs_file = (\<lambda>(st, log).
     case readlines cs_file of
       Returned lines \<Rightarrow>
         (fold (se_line cs_file) (enumerate 1 lines) (st\<lparr>in_multiline_comment := False\<rparr>), log)
     | Raised msg \<Rightarrow>
         (st, log @ [Print_warning [S ''Could not read '', S (str_path cs_file), S '': '', S msg]]))"

definition se_scan :: "env \<Rightarrow> scan \<times> out list" where
  "se_scan e =
     (let cs_files = se_cs_files e;
          test_files = se_test_files e;
          all_files = filter not_generated (cs_files @ test_files)
      in fold se_file all_files
           (\<lparr>in_multiline_comment = False, issues_found = [], total_statements = 0,
             correct_statements = 0\<rparr>,
            [Print_header ''VERIFICATION 4: STATEMENT ENDING RULE (//)'']))"

definition compliance_rate :: "scan \<Rightarrow> rat" where
  "compliance_rate st = (of_nat (correct_statements st) / of_nat (total_statements st)) * 100"

definition show_se_issue :: "issue \<Rightarrow> out list" where
  "show_se_issue i =
     [Print [S ''  '', S (issue_file i), S '':'', I (int (issue_line i))],
      Print [S ''    '', S (issue_content i)]]"

definition check_statement_endings :: "env \<Rightarrow> bool \<times> out list" where
  "check_statement_endings e =
     (let (st, log) = se_scan e in
      if total_statements st = 0 then
        (True, log @ [Print_warning [S ''No statements found to verify'']])
      else
        let log1 = log @
              [Print_info [S ''Total statements checked: '', I (int (total_statements st))],
               Print_info [S ''Compliant statements: '', I (int (correct_statements st))],
               Print_info [S ''Compliance rate: '', F1 (compliance_rate st), S ''%'']]
        in
        if compliance_rate st \<ge> 95 then
          (True, log1 @ [Print_success [S ''Statement ending rule compliance: '',
                                        F1 (compliance_rate st), S ''%'']])
        else
          (False,
           log1 @ [Print_error [S ''Statement ending rule compliance only '',
                                F1 (compliance_rate st), S ''%'']]
                @ (if issues_found st \<noteq> [] then
                     [Print_error [S ''Found '', I (int (length (issues_found st))),
                                   S '' violations (showing first 15):'']]
                     @ concat (map show_se_issue (take 15 (issues_found st)))
                   else [])))"

subsection \<open>The loop body of \<open>check_statement_endings\<close>, line by line\<close>

text \<open>
  A second reading of \<open>se_line\<close>, used to say what the counters count. Given whether a
  block comment is open before a line, \<open>se_comment_after\<close> is the flag after it and
  \<open>se_judge\<close> what happens to the line: it is skipped by one of the \<open>continue\<close>s or by
  the test for a statement; it is a statement that ends with \<open>//\<close>; it is a statement
  without the marker that is let off for its two quotes; or it is recorded as an issue.
\<close>

datatype line_class = Skipped | Compliant | Quoted | Offending

definition se_comment_after :: "bool \<Rightarrow> string \<Rightarrow> bool" where
  "se_comment_after opened l =
     (let stripped = strip l in
      if stripped = [] then opened
      else if str_in ''*/'' stripped then False
      else (str_in ''/*'' stripped \<or> opened))"

definition se_statement :: "string \<Rightarrow> bool" where
  "se_statement stripped =
     ((str_in '';'' stripped \<or> str_in ''=>'' stripped \<or> str_in ''get;'' stripped
       \<or> str_in ''set;'' stripped)
      \<and> stripped \<notin> set [''{'', ''}'', ''{;'', ''};'']
      \<and> \<not> startswith stripped ''for (''
      \<and> \<not> startswith stripped ''.''
      \<and> \<not> startswith stripped ''async () =>'')"

definition se_judge :: "bool \<Rightarrow> string \<Rightarrow> line_class" where
  "se_judge opened l =
     (let stripped = strip l in
      if stripped = [] \<or> str_in ''*/'' stripped \<or> str_in ''/*'' stripped \<or> opened
         \<or> startswith stripped ''///'' \<or> startswith stripped ''//''
         \<or> (startswith stripped ''['' \<and> endswith stripped '']'')
         \<or> \<not> se_statement stripped
      then Skipped
      else if endswith stripped ''//'' then Compliant
      else if str_in [dquote] stripped \<and> count_char stripped dquote \<ge> 2 then Quoted
      else Offending)"

fun se_classes :: "bool \<Rightarrow> string list \<Rightarrow> line_class list" where
  "se_classes opened [] = []"
| "se_classes opened (l # ls) = se_judge opened l # se_classes (se_comment_after opened l) ls"

definition se_file_classes :: "src_file \<Rightarrow> line_class list" where
  "se_file_classes f =
     (case readlines f of
        Returned lines \<Rightarrow> se_classes False lines
      | Raised msg \<Rightarrow> [])"

definition se_all_classes :: "env \<Rightarrow> line_class list" where
  "se_all_classes e =
     concat (map se_file_classes (filter not_generated (se_cs_files e @ se_test_files e)))"

subsection \<open>\<open>check_test_coverage\<close>\<close>

text \<open>
  The length of the list comprehension over \<open>result.stdout.split('\n')\<close> that counts the
  listed tests.
\<close>

definition count_listed_tests :: "string \<Rightarrow> nat" where
  "count_listed_tests out =
     length (filter (\<lambda>l. strip l \<noteq> [] \<and> \<not> startswith l '' '' \<and> str_in ''Test'' l)
               (split_nl out))"

definition check_test_coverage :: "env \<Rightarrow> bool \<times> out list" where
  "check_test_coverage e =
     (let log0 = [Print_header ''VERIFICATION 3: UNIT TEST COVERAGE'',
                  Print_info [S ''Running tests with coverage collection...'']];
          failed = (\<lambda>log msg. (False, log @ [Print_error [S ''Failed to check test coverage: '', S msg]]))
      in
      case cov_test_run e of
        Raised msg \<Rightarrow> failed log0 msg
      | Returned result \<Rightarrow>
          if returncode result \<noteq> 0 then
            (False, log0 @ [Print_error [S ''Tests failed to run''],
                            Print [S (stdout result)],
                            Print [S (stderr result)]])
          else
            let coverage_files =
                  (if cov_cobertura_files e = [] then cov_xml_files e else cov_cobertura_files e)
            in
            if coverage_files \<noteq> [] then
              let source_files = cov_source_files e;
                  test_files = cov_test_files e;
                  coverage_ratio =
                    (if source_files \<noteq> []
                     then (of_nat (length test_files) / of_nat (length source_files)) * 100
                     else 0);
                  log1 = log0 @
                    [Print_info [S ''Coverage files found: '', I (int (length coverage_files))],
                     Print_info [S ''Source files: '', I (int (length source_files))],
                     Print_info [S ''Test files: '', I (int (length test_files))],
                     Print_info [S ''Approximate coverage ratio: '', F1 coverage_ratio, S ''%'']]
              in
              if coverage_ratio \<ge> REQUIRED_COVERAGE_PERCENT then
                (True, log1 @ [Print_success [S ''Test coverage ('', F1 coverage_ratio,
                                              S ''%) is above '', Fl REQUIRED_COVERAGE_PERCENT,
                                              S ''%'']])
              else
                (True, log1 @ [Print_warning [S ''Test coverage ('', F1 coverage_ratio,
                                              S ''%) is below '', Fl REQUIRED_COVERAGE_PERCENT,
                                              S ''%'']])
            else
              let log1 = log0 @
                    [Print_info [S ''Coverage report not available, checking test count...'']]
              in
              (case cov_list_tests e of
                 Raised msg \<Rightarrow> failed log1 msg
               | Returned result2 \<Rightarrow>
                   (let test_count = count_listed_tests (stdout result2);
                        log2 = log1 @ [Print_info [S ''Total tests found: '', I (int test_count)]]
                    in
                    if test_count \<ge> 50 then
                      (True, log2 @ [Print_success [S ''Comprehensive test suite with '',
                                                    I (int test_count), S ''+ tests'']])
                    else
                      (test_count > 0,
                       log2 @ [Print_warning [S ''Only '', I (int test_count),
                                              S '' tests found'']]))))"

subsection \<open>\<open>check_execution_time\<close>\<close>

text \<open>\<open>[\d.]\<close>: below code point 256 the decimal digits are \<open>0\<close> to \<open>9\<close>.\<close>

definition digits :: "char list" where
  "digits = [CHR 0x30, CHR 0x31, CHR 0x32, CHR 0x33, CHR 0x34, CHR 0x35, CHR 0x36, CHR 0x37,
             CHR 0x38, CHR 0x39]"

definition is_digit :: "char \<Rightarrow> bool" where
  "is_digit c = (c \<in> set digits)"

text \<open>The value of a digit is its position among the digits.\<close>

definition digit_value :: "char \<Rightarrow> nat" where
  "digit_value c = length (takeWhile (\<lambda>d. d \<noteq> c) digits)"

definition digit_or_dot :: "char \<Rightarrow> bool" where
  "digit_or_dot c = (is_digit c \<or> c = CHR ''.'')"

text \<open>
  \<open>re.search(r'Total time: ([\d.]+) Seconds', s)\<close>, returning group 1 of the leftmost
  match. The class excludes the blank that follows it, so the greedy run is the only
  candidate at each starting point.
\<close>

definition match_total_time :: "string \<Rightarrow> string option" where
  "match_total_time s =
     (if startswith s ''Total time: '' then
        (let rest = drop (length ''Total time: '') s;
             grp = takeWhile digit_or_dot rest
         in if grp \<noteq> [] \<and> startswith (dropWhile digit_or_dot rest) '' Seconds''
            then Some grp else None)
      else None)"

fun search_total_time :: "string \<Rightarrow> string option" where
  "search_total_time [] = None"
| "search_total_time (c # cs) =
     (case match_total_time (c # cs) of
        Some grp \<Rightarrow> Some grp
      | None \<Rightarrow> search_total_time cs)"

text \<open>
  \<open>float(s)\<close> on what the group can hold, digits and dots: a decimal numeral with at
  most one dot and at least one digit, else \<open>ValueError\<close>.
\<close>

definition decimal :: "string \<Rightarrow> rat" where
  "decimal ds = foldl (\<lambda>a c. 10 * a + of_nat (digit_value c)) 0 ds"

definition float :: "string \<Rightarrow> rat outcome" where
  "float s =
     (if list_all digit_or_dot s \<and> count_char s CHR ''.'' \<le> 1 \<and> list_ex is_digit s then
        (let whole = takeWhile is_digit s;
             frac = drop 1 (dropWhile is_digit s)
         in Returned (decimal whole + decimal frac / 10 ^ length frac))
      else Raised (''could not convert string to float: '' @ [squote] @ s @ [squote]))"

definition check_execution_time :: "env \<Rightarrow> bool \<times> out list" where
  "check_execution_time e =
     (let log0 = [Print_header ''VERIFICATION 4: EXECUTION TIME (<0.3 sec)''];
          caught = (\<lambda>log msg.
            (True, log @ [Print_error [S ''Failed to check execution time: '', S msg]]))
      in
      case perf_setup e of
        Raised msg \<Rightarrow> caught log0 msg
      | Returned u \<Rightarrow>
         (let log1 = log0 @ [Print_info [S ''Running performance test...'']] in
          case perf_build e of
            Raised msg \<Rightarrow> caught log1 msg
          | Returned built \<Rightarrow>
             (let log2 = log1 @
                    [Print_info
                       [S ''Checking test execution times as proxy for API performance...'']]
              in
              case perf_test_run e of
                Raised msg \<Rightarrow> caught log2 msg
              | Returned result \<Rightarrow>
                 (let time_match =
                        (if str_in ''Total time:'' (stdout result)
                         then search_total_time (stdout result) else None)
                  in
                  case time_match of
                    Some grp \<Rightarrow>
                      (case float grp of
                         Raised msg \<Rightarrow> caught log2 msg
                       | Returned total_time \<Rightarrow>
                          (let test_count = 69;
                               avg_time_ms = (total_time / test_count) * 1000;
                               log3 = log2 @
                                 [Print_info [S ''Total test time: '', F2 total_time,
                                              S '' seconds''],
                                  Print_info [S ''Average time per test: '', F2 avg_time_ms,
                                              S '' ms'']];
                               estimated_api_time = avg_time_ms / 5
                           in
                           if estimated_api_time < of_int MAX_EXECUTION_TIME_MS then
                             (True, log3 @ [Print_success
                                [S ''Estimated API execution time ('', F2 estimated_api_time,
                                 S '' ms) is well below '', I MAX_EXECUTION_TIME_MS, S '' ms'']])
                           else
                             (True, log3 @ [Print_warning
                                [S ''Estimated API execution time ('', F2 estimated_api_time,
                                 S '' ms) approaches limit'']])))
                  | None \<Rightarrow>
                      (True, log2 @
                         [Print_info
                            [S ''Direct measurement not available, but implementation is optimized''],
                          Print_success
                            [S ''Implementation uses O(1) lookups and minimal computation'']])))))"

subsection \<open>\<open>run_all_verifications\<close> and \<open>main\<close>\<close>

text \<open>The dictionary \<open>results\<close>, in insertion order.\<close>

definition results :: "env \<Rightarrow> (string \<times> bool) list" where
  "results e =
     [(''compilation'', fst (check_compilation e)),
      (''double_semicolons'', fst (check_double_semicolons e)),
      (''statement_endings'', fst (check_statement_endings e)),
      (''test_coverage'', fst (check_test_coverage e)),
      (''execution_time'', fst (check_execution_time e))]"

definition run_all_verifications :: "env \<Rightarrow> bool \<times> out list" where
  "run_all_verifications e =
     (let log = [Print_banner]
            @ snd (check_compilation e)
            @ snd (check_double_semicolons e)
            @ snd (check_statement_endings e)
            @ snd (check_test_coverage e)
            @ snd (check_execution_time e)
            @ [Print_header ''VERIFICATION SUMMARY''];
          all_passed = list_all (\<lambda>passed. passed) (map snd (results e));
          log1 = log @ map (\<lambda>(check, passed). Print_summary check passed) (results e)
                     @ [Print_rule]
      in
      if all_passed then
        (True, log1 @ [Print [S ''ALL VERIFICATIONS PASSED!''],
                       Print [S ''The UserBot is ready for submission!'']])
      else
        (False, log1 @ [Print [S ''SOME VERIFICATIONS FAILED''],
                        Print [S ''Please fix the issues above before submission.'']]))"

text \<open>\<open>main\<close>: the exit status given to \<open>sys.exit\<close>, and the output.\<close>

definition main :: "env \<Rightarrow> int \<times> out list" where
  "main e =
     (if \<not> userbot_dir_exists e then
        (1, [Print_error [S ''UserBot directory not found: '', S (userbot_dir e)]])
      else
        let (success, log) = run_all_verifications e
        in ((if success then 0 else 1), log))"


section \<open>Sample inputs\<close>

definition sample_submission :: submission where
  "sample_submission =
     \<lparr>submission_id = ''sub_1'', bot_name = ''StrategicMind'', team_name = ''Alpha'',
      bot_version = ''1.0.0'', repository_url = ''https://example.org/bot.git'',
      description = [], language = ''C#'', framework = [], status = ''pending'',
      submitted_at = ''2026-01-01T00:00:00'', updated_at = ''2026-01-01T00:00:00''\<rparr>"

definition sample_db :: submissions_db where
  "sample_db = [''sub_1'' \<mapsto> sample_submission]"

definition ok_run :: completed where
  "ok_run = \<lparr>returncode = 0, stdout = [], stderr = []\<rparr>"

definition bot_cs :: src_file where
  "bot_cs =
     \<lparr>str_path = ''/work/Tools/UserBot/UserBot.StrategicMind/Bot.cs'',
      rel_userbot = ''UserBot.StrategicMind/Bot.cs'',
      rel_grandparent = ''UserBot/UserBot.StrategicMind/Bot.cs'',
      readlines = Returned
        [''using System; //'' @ [newline],
         ''class Bot'' @ [newline],
         ''{ int Move() => 1; } //'' @ [newline]]\<rparr>"

text \<open>
  A submission that builds, keeps both rules, has coverage files with one test file for
  four source files, and whose test run reports its total time.
\<close>

definition env_ok :: env where
  "env_ok =
     \<lparr>userbot_dir = ''/work/Tools/UserBot'',
      userbot_dir_exists = True,
      compilation_build = Returned ok_run,
      ds_cs_files = [bot_cs],
      se_cs_files = [bot_cs],
      se_test_files = [],
      cov_test_run = Returned ok_run,
      cov_cobertura_files = [''TestResults/r1/coverage.cobertura.xml''],
      cov_xml_files = [''TestResults/r1/coverage.cobertura.xml''],
      cov_source_files = [''Bot.cs'', ''Moves.cs'', ''History.cs'', ''Predictor.cs''],
      cov_test_files = [''BotTests.cs''],
      cov_list_tests = Returned ok_run,
      perf_setup = Returned (),
      perf_build = Returned ok_run,
      perf_test_run = Returned
        \<lparr>returncode = 0, stdout = ''Passed!  Total time: 1.5 Seconds'', stderr = []\<rparr>\<rparr>"

text \<open>The same submission on a machine where \<open>dotnet\<close> cannot be started.\<close>

definition no_dotnet :: string where
  "no_dotnet = ''[Errno 2] No such file or directory: dotnet''"

definition env_no_dotnet :: env where
  "env_no_dotnet =
     env_ok\<lparr>compilation_build := Raised no_dotnet,
            cov_test_run := Raised no_dotnet,
            cov_list_tests := Raised no_dotnet,
            perf_build := Raised no_dotnet,
            perf_test_run := Raised no_dotnet\<rparr>"

text \<open>No coverage file is written and \<open>--list-tests\<close> lists nothing.\<close>

definition env_no_tests :: env where
  "env_no_tests =
     env_ok\<lparr>cov_cobertura_files := [],
            cov_xml_files := [],
            cov_list_tests := Returned
              \<lparr>returncode = 0, stdout = ''No test is available.'' @ [newline], stderr = []\<rparr>\<rparr>"

text \<open>No coverage file is written and \<open>--list-tests\<close> prints two test names.\<close>

definition two_tests_listed :: completed where
  "two_tests_listed =
     \<lparr>returncode = 0,
      stdout = ''BotTests.Test_Opening'' @ [newline] @ ''BotTests.Test_Counter'' @ [newline],
      stderr = []\<rparr>"

definition env_two_tests :: env where
  "env_two_tests =
     env_ok\<lparr>cov_cobertura_files := [], cov_xml_files := [],
            cov_list_tests := Returned two_tests_listed\<rparr>"

text \<open>The test project does not pass: \<open>dotnet test\<close> exits with code 1.\<close>

definition env_tests_fail :: env where
  "env_tests_fail =
     env_ok\<lparr>cov_test_run := Returned
              \<lparr>returncode = 1, stdout = ''Failed!'', stderr = []\<rparr>\<rparr>"

text \<open>A test run of twenty-five minutes.\<close>

definition env_slow :: env where
  "env_slow =
     env_ok\<lparr>perf_test_run := Returned
              \<lparr>returncode = 0, stdout = ''Total time: 1500 Seconds'', stderr = []\<rparr>\<rparr>"

text \<open>The test run prints no total time.\<close>

definition env_no_timing :: env where
  "env_no_timing = env_ok\<lparr>perf_test_run := Returned ok_run\<rparr>"

text \<open>A file whose only statement keeps its semicolon inside a string literal.\<close>

definition quoted_cs :: src_file where
  "quoted_cs =
     bot_cs\<lparr>readlines := Returned [''var s = '' @ [dquote] @ ''a;b'' @ [dquote] @ '';'']\<rparr>"

definition env_quoted :: env where
  "env_quoted = env_ok\<lparr>se_cs_files := [quoted_cs]\<rparr>"

text \<open>
  A file with a doubled semicolon, files where one statement of ten and one of two lacks the
  marker, and a file without statements.
\<close>

definition double_cs :: src_file where
  "double_cs = bot_cs\<lparr>readlines := Returned [''int x = 5;;'']\<rparr>"

definition env_double :: env where
  "env_double = env_ok\<lparr>ds_cs_files := [double_cs]\<rparr>"

definition nine_of_ten_cs :: src_file where
  "nine_of_ten_cs =
     bot_cs\<lparr>readlines := Returned (replicate 9 ''var y = 1; //'' @ [''var y = 1;''])\<rparr>"

definition env_nine_of_ten :: env where
  "env_nine_of_ten = env_ok\<lparr>se_cs_files := [nine_of_ten_cs]\<rparr>"

definition one_of_two_cs :: src_file where
  "one_of_two_cs = bot_cs\<lparr>readlines := Returned [''var x = 1; //'', ''var y = 1;'']\<rparr>"

definition env_one_of_two :: env where
  "env_one_of_two = env_ok\<lparr>se_cs_files := [one_of_two_cs]\<rparr>"

definition empty_cs :: src_file where
  "empty_cs = bot_cs\<lparr>readlines := Returned [''// nothing here'', ''{'', ''}'']\<rparr>"

definition env_empty :: env where
  "env_empty = env_ok\<lparr>se_cs_files := [empty_cs]\<rparr>"

section \<open>Facts about the string operations\<close>

lemma startswith_append: "startswith (p @ s) p"
  by (simp add: startswith_def)

lemma str_in_here: "startswith s p \<Longrightarrow> str_in p s"
  by (cases s) (simp_all add: startswith_def)

lemma str_in_append_left: "str_in p s \<Longrightarrow> str_in p (a @ s)"
  by (induction a) simp_all

lemma str_in_middle: "str_in p (a @ p @ b)"
  by (rule str_in_append_left, rule str_in_here, rule startswith_append)

section \<open>Properties of the registry\<close>

text \<open>
  C9. For a submission id that is not a key of the store, \<open>get_submission\<close>,
  \<open>update_submission\<close> and \<open>delete_submission\<close> each return the unsuccessful
  response whose error text names the id, and the store they leave behind is the store
  they were given.
\<close>

theorem missing_id_not_found:
  assumes "sid \<notin> dom db"
  shows "get_submission db sid = (Failure (not_found sid), db)
       \<and> update_submission db now sid v d r st = (Failure (not_found sid), db)
       \<and> delete_submission db sid = (Failure (not_found sid), db)
       \<and> \<not> success (Failure (not_found sid))
       \<and> str_in sid (not_found sid)"
proof -
  from assms have none: "db sid = None"
    by (simp add: domIff)
  have names: "str_in sid (not_found sid)"
    unfolding not_found_def by (intro str_in_append_left str_in_here startswith_append)
  from none names show ?thesis
    by (simp add: get_submission_def update_submission_def delete_submission_def success_def)
qed

theorem missing_id_not_found_witness:
  "''sub_2'' \<notin> dom sample_db
   \<and> get_submission sample_db ''sub_2''
       = (Failure (not_found ''sub_2''), sample_db)
   \<and> update_submission sample_db ''2026-01-01T00:00:00'' ''sub_2''
         (Some ''1.1'') None None (Some ''approved'')
       = (Failure (not_found ''sub_2''), sample_db)
   \<and> delete_submission sample_db ''sub_2''
       = (Failure (not_found ''sub_2''), sample_db)
   \<and> \<not> success (Failure (not_found ''sub_2''))
   \<and> str_in ''sub_2'' (not_found ''sub_2'')"
proof -
  have absent: "''sub_2'' \<notin> dom sample_db"
    by (simp add: sample_db_def)
  from absent missing_id_not_found [OF absent] show ?thesis
    by blast
qed

section \<open>Properties of the checks\<close>

lemmas sample_defs =
  ok_run_def bot_cs_def env_ok_def no_dotnet_def env_no_dotnet_def env_no_tests_def
  env_tests_fail_def env_slow_def env_no_timing_def
  two_tests_listed_def env_two_tests_def quoted_cs_def env_quoted_def double_cs_def env_double_def
  nine_of_ten_cs_def env_nine_of_ten_def one_of_two_cs_def env_one_of_two_def
  empty_cs_def env_empty_def


text \<open>
  C2. The verdict of \<open>run_all_verifications\<close> is the conjunction of the five check
  results, and when the script gets as far as running them (the \<open>UserBot\<close> directory
  exists) the exit status is 0 for a true verdict and 1 for a false one.
\<close>

theorem verdict_is_conjunction:
  "fst (run_all_verifications e) =
     (fst (check_compilation e) \<and> fst (check_double_semicolons e)
      \<and> fst (check_statement_endings e) \<and> fst (check_test_coverage e)
      \<and> fst (check_execution_time e))
   \<and> (userbot_dir_exists e \<longrightarrow>
        fst (main e) = (if fst (run_all_verifications e) then 0 else 1))"
  by (simp add: run_all_verifications_def results_def main_def Let_def split: prod.splits)

theorem verdict_is_conjunction_witness:
  "userbot_dir_exists env_no_dotnet
   \<and> \<not> fst (check_compilation env_no_dotnet)
   \<and> \<not> fst (run_all_verifications env_no_dotnet)
   \<and> fst (main env_no_dotnet) = 1
   \<and> userbot_dir_exists env_ok
   \<and> fst (run_all_verifications env_ok)
   \<and> fst (main env_ok) = 0"
proof -
  have there: "userbot_dir_exists env_no_dotnet"
    by (simp add: sample_defs)
  have build: "\<not> fst (check_compilation env_no_dotnet)"
    by (simp add: sample_defs check_compilation_def)
  from there build verdict_is_conjunction [of env_no_dotnet]
  have broken: "\<not> fst (run_all_verifications env_no_dotnet) \<and> fst (main env_no_dotnet) = 1"
    by simp
  have there2: "userbot_dir_exists env_ok"
    by (simp add: sample_defs)
  have passed: "fst (run_all_verifications env_ok)"
    by code_simp
  from there2 passed verdict_is_conjunction [of env_ok]
  have sound: "fst (main env_ok) = 0"
    by simp
  from there build broken there2 passed sound show ?thesis
    by blast
qed











subsection \<open>The double-semicolon scan\<close>













subsection \<open>The statement-ending scan\<close>

lemma se_line_effect:
  "in_multiline_comment (se_line f (n, l) st) = se_comment_after (in_multiline_comment st) l
   \<and> total_statements (se_line f (n, l) st) =
       total_statements st + (if se_judge (in_multiline_comment st) l = Skipped then 0 else 1)
   \<and> correct_statements (se_line f (n, l) st) =
       correct_statements st + (if se_judge (in_multiline_comment st) l = Compliant then 1 else 0)
   \<and> issues_found (se_line f (n, l) st) =
       issues_found st @
         (if se_judge (in_multiline_comment st) l = Offending
          then [\<lparr>issue_file = rel_grandparent f, issue_line = n,
                 issue_content = take 80 (strip l)\<rparr>]
          else [])"
proof (cases "strip l = []")
  case True
  then show ?thesis
    by (simp add: se_line_def se_judge_def se_comment_after_def)
next
  case filled: False
  show ?thesis
  proof (cases "str_in ''*/'' (strip l)")
    case True
    with filled show ?thesis
      by (simp add: se_line_def se_judge_def se_comment_after_def Let_def)
  next
    case not_closing: False
    show ?thesis
    proof (cases "str_in ''/*'' (strip l) \<or> in_multiline_comment st")
      case True
      with filled not_closing show ?thesis
        by (auto simp add: se_line_def se_judge_def se_comment_after_def Let_def)
    next
      case outside: False
      show ?thesis
      proof (cases "startswith (strip l) ''///'' \<or> startswith (strip l) ''//''
                    \<or> (startswith (strip l) ''['' \<and> endswith (strip l) '']'')")
        case True
        then consider (doc) "startswith (strip l) ''///''"
          | (comment) "startswith (strip l) ''//''"
          | (attribute) "startswith (strip l) ''[''" "endswith (strip l) '']''"
          by blast
        then show ?thesis
        proof cases
          case doc
          with filled not_closing outside show ?thesis
            by (simp add: se_line_def se_judge_def se_comment_after_def Let_def)
        next
          case comment
          with filled not_closing outside show ?thesis
            by (simp add: se_line_def se_judge_def se_comment_after_def Let_def)
        next
          case attribute
          with filled not_closing outside show ?thesis
            by (simp add: se_line_def se_judge_def se_comment_after_def Let_def)
        qed
      next
        case code: False
        show ?thesis
        proof (cases "se_statement (strip l)")
          case False
          with filled not_closing outside code show ?thesis
            by (simp add: se_line_def se_judge_def se_comment_after_def se_statement_def Let_def
                     del: str_in.simps)
        next
          case stmt: True
          show ?thesis
          proof (cases "endswith (strip l) ''//''")
            case True
            with filled not_closing outside code stmt show ?thesis
              by (simp add: se_line_def se_judge_def se_comment_after_def se_statement_def Let_def
                       del: str_in.simps)
          next
            case unmarked: False
            show ?thesis
            proof (cases "str_in [dquote] (strip l) \<and> count_char (strip l) dquote \<ge> 2")
              case True
              with filled not_closing outside code stmt unmarked show ?thesis
                by (simp add: se_line_def se_judge_def se_comment_after_def se_statement_def Let_def
                         del: str_in.simps)
            next
              case False
              with filled not_closing outside code stmt unmarked show ?thesis
                by (simp add: se_line_def se_judge_def se_comment_after_def se_statement_def Let_def
                         del: str_in.simps)
            qed
          qed
        qed
      qed
    qed
  qed
qed

lemma se_fold_lines:
  "total_statements (fold (se_line f) (enumerate k ls) st) =
     total_statements st
       + length (filter (\<lambda>c. c \<noteq> Skipped) (se_classes (in_multiline_comment st) ls))
   \<and> correct_statements (fold (se_line f) (enumerate k ls) st) =
       correct_statements st + count_list (se_classes (in_multiline_comment st) ls) Compliant
   \<and> length (issues_found (fold (se_line f) (enumerate k ls) st)) =
       length (issues_found st) + count_list (se_classes (in_multiline_comment st) ls) Offending"
proof (induction ls arbitrary: k st)
  case Nil
  show ?case by simp
next
  case (Cons l ls)
  note step = se_line_effect [of f k l st]
  note rest = Cons.IH [of "Suc k" "se_line f (k, l) st"]
  from step rest show ?case
    by (simp del: se_judge_def)
qed

lemma se_file_effect:
  "total_statements (fst (se_file f (st, lg))) =
     total_statements st + length (filter (\<lambda>c. c \<noteq> Skipped) (se_file_classes f))
   \<and> correct_statements (fst (se_file f (st, lg))) =
       correct_statements st + count_list (se_file_classes f) Compliant
   \<and> length (issues_found (fst (se_file f (st, lg)))) =
       length (issues_found st) + count_list (se_file_classes f) Offending"
proof (cases "readlines f")
  case (Returned lines)
  with se_fold_lines [of f 1 lines "st\<lparr>in_multiline_comment := False\<rparr>"] show ?thesis
    by (simp add: se_file_def se_file_classes_def)
next
  case (Raised msg)
  then show ?thesis
    by (simp add: se_file_def se_file_classes_def)
qed

lemma se_files_effect:
  "total_statements (fst (fold se_file fs (st, lg))) =
     total_statements st
       + length (filter (\<lambda>c. c \<noteq> Skipped) (concat (map se_file_classes fs)))
   \<and> correct_statements (fst (fold se_file fs (st, lg))) =
       correct_statements st + count_list (concat (map se_file_classes fs)) Compliant
   \<and> length (issues_found (fst (fold se_file fs (st, lg)))) =
       length (issues_found st) + count_list (concat (map se_file_classes fs)) Offending"
proof (induction fs arbitrary: st lg)
  case Nil
  show ?case by simp
next
  case (Cons f fs)
  obtain st' lg' where next_state: "se_file f (st, lg) = (st', lg')"
    by (cases "se_file f (st, lg)")
  from se_file_effect [of f st lg] next_state
  have first: "total_statements st' =
       total_statements st + length (filter (\<lambda>c. c \<noteq> Skipped) (se_file_classes f))"
    and "correct_statements st' = correct_statements st + count_list (se_file_classes f) Compliant"
    and "length (issues_found st') =
       length (issues_found st) + count_list (se_file_classes f) Offending"
    by simp_all
  with Cons.IH [of st' lg'] next_state show ?case
    by simp
qed

lemma se_scan_counts:
  "total_statements (fst (se_scan e)) = length (filter (\<lambda>c. c \<noteq> Skipped) (se_all_classes e))
   \<and> correct_statements (fst (se_scan e)) = count_list (se_all_classes e) Compliant
   \<and> length (issues_found (fst (se_scan e))) = count_list (se_all_classes e) Offending"
  using se_files_effect
    [of "filter not_generated (se_cs_files e @ se_test_files e)"
        "\<lparr>in_multiline_comment = False, issues_found = [], total_statements = 0,
          correct_statements = 0\<rparr>"
        "[Print_header ''VERIFICATION 4: STATEMENT ENDING RULE (//)'']"]
  by (simp add: se_scan_def se_all_classes_def Let_def)


lemma se_verdict:
  "fst (check_statement_endings e) =
     (total_statements (fst (se_scan e)) = 0 \<or> 95 \<le> compliance_rate (fst (se_scan e)))"
  by (simp add: check_statement_endings_def Let_def split: prod.splits)

text \<open>
  C6. If the scan finds no statement, \<open>check_statement_endings\<close> passes. Otherwise the
  compliance rate is \<open>correct_statements / total_statements * 100\<close> and the check
  passes exactly when the rate is at least 95. The two counters are the number of lines
  the loop judges to be statements and the number of those that end with \<open>//\<close>.
\<close>

theorem statement_endings_verdict:
  "(total_statements (fst (se_scan e)) = 0 \<longrightarrow> fst (check_statement_endings e))
   \<and> (0 < total_statements (fst (se_scan e)) \<longrightarrow>
        compliance_rate (fst (se_scan e))
          = of_nat (correct_statements (fst (se_scan e)))
            / of_nat (total_statements (fst (se_scan e))) * 100
        \<and> (fst (check_statement_endings e) \<longleftrightarrow> 95 \<le> compliance_rate (fst (se_scan e))))
   \<and> total_statements (fst (se_scan e))
       = length (filter (\<lambda>c. c \<noteq> Skipped) (se_all_classes e))
   \<and> correct_statements (fst (se_scan e)) = count_list (se_all_classes e) Compliant"
  using se_scan_counts [of e]
  by (simp add: se_verdict compliance_rate_def)

theorem statement_endings_verdict_witness:
  "total_statements (fst (se_scan env_empty)) = 0
   \<and> fst (check_statement_endings env_empty)
   \<and> total_statements (fst (se_scan env_nine_of_ten)) = 10
   \<and> correct_statements (fst (se_scan env_nine_of_ten)) = 9
   \<and> compliance_rate (fst (se_scan env_nine_of_ten)) = 90
   \<and> \<not> fst (check_statement_endings env_nine_of_ten)"
proof -
  have blank: "se_all_classes env_empty = [Skipped, Skipped, Skipped]"
    by code_simp
  have classes: "se_all_classes env_nine_of_ten =
      [Compliant, Compliant, Compliant, Compliant, Compliant, Compliant, Compliant, Compliant,
       Compliant, Offending]"
    by code_simp
  note empty_file = statement_endings_verdict [of env_empty]
  note ten_lines = statement_endings_verdict [of env_nine_of_ten]
  from empty_file
  have "total_statements (fst (se_scan env_empty))
        = length (filter (\<lambda>c. c \<noteq> Skipped) (se_all_classes env_empty))"
    by blast
  then have none: "total_statements (fst (se_scan env_empty)) = 0"
    unfolding blank by simp
  with empty_file have passes: "fst (check_statement_endings env_empty)"
    by blast
  from ten_lines
  have "total_statements (fst (se_scan env_nine_of_ten))
        = length (filter (\<lambda>c. c \<noteq> Skipped) (se_all_classes env_nine_of_ten))"
    and "correct_statements (fst (se_scan env_nine_of_ten))
        = count_list (se_all_classes env_nine_of_ten) Compliant"
    by blast+
  then have ten: "total_statements (fst (se_scan env_nine_of_ten)) = 10"
    and nine: "correct_statements (fst (se_scan env_nine_of_ten)) = 9"
    unfolding classes by simp_all
  from ten have some: "0 < total_statements (fst (se_scan env_nine_of_ten))"
    by simp
  with ten_lines
  have rate: "compliance_rate (fst (se_scan env_nine_of_ten))
          = of_nat (correct_statements (fst (se_scan env_nine_of_ten)))
            / of_nat (total_statements (fst (se_scan env_nine_of_ten))) * 100"
    and verdict: "fst (check_statement_endings env_nine_of_ten)
          \<longleftrightarrow> 95 \<le> compliance_rate (fst (se_scan env_nine_of_ten))"
    by blast+
  from rate have ninety: "compliance_rate (fst (se_scan env_nine_of_ten)) = 90"
    unfolding ten nine by simp
  with verdict have fails: "\<not> fst (check_statement_endings env_nine_of_ten)"
    by simp
  from none passes ten nine ninety fails show ?thesis
    by blast
qed




subsection \<open>The order of the checks\<close>

















end
